theory Spec2Isabelle
  imports Complex_Main "HOL-Library.Sublist" "HOL-Library.Multiset"
begin

section \<open>Data model\<close>

text \<open>
  The catalog is the pandas DataFrame read from the CSV file: an ordered list of rows with the
  columns \<open>id\<close> and \<open>description\<close>, indexed by position (the default RangeIndex of
  \<open>read_csv\<close>). A cell of \<open>description\<close> that is empty in the file is NaN in the frame:
  it is \<open>None\<close> here. Strings are byte strings; letter case is ASCII letter case.
\<close>

datatype error = IndexError | ValueError | AttributeError | RegexError | ReadError

record product =
  product_id :: string
  description :: "string option"

type_synonym dataframe = "product list"

text \<open>What \<open>st.error\<close> shows: the three messages of the script, with the exception they quote.\<close>

datatype message = Error_loading error | Dataset_empty | Error_finding error

abbreviation newline :: char where
  "newline \<equiv> CHR 0x0A"

section \<open>Loading the catalog (lines 13 to 29)\<close>

text \<open>
  \<open>load_data\<close> takes the outcome of \<open>pd.read_csv(DATA_URL)\<close>: the frame read, or the
  exception raised. The exception is shown and replaced by the empty frame \<open>pd.DataFrame()\<close>.
\<close>

definition load_data :: "error + dataframe \<Rightarrow> message list \<times> dataframe" where
  "load_data read_csv =
     (case read_csv of
        Inr df \<Rightarrow> ([], df)
      | Inl e \<Rightarrow> ([Error_loading e], []))"

text \<open>
  The script then stops on an empty frame (\<open>st.stop()\<close>) and otherwise goes on with the frame.
\<close>

datatype session = Stopped "message list" | Running "message list" dataframe

definition startup :: "error + dataframe \<Rightarrow> session" where
  "startup read_csv =
     (case load_data read_csv of
        (shown, df) \<Rightarrow>
          if df = [] then Stopped (shown @ [Dataset_empty]) else Running shown df)"

section \<open>Cleaning a description (lines 145 to 152)\<close>

text \<open>
  Python's \<open>str.replace(old, new)\<close>: the occurrences of \<open>old\<close> are found from left to
  right without overlap; with an empty \<open>old\<close>, \<open>new\<close> is put before every character and at
  the end.
\<close>

fun replace :: "string \<Rightarrow> string \<Rightarrow> string \<Rightarrow> string" where
  "replace [] old new = (if old = [] then new else [])"
| "replace (c # cs) old new =
     (if old = [] then new @ c # replace cs old new
      else if prefix old (c # cs) then new @ replace (drop (length old) (c # cs)) old new
      else c # replace cs old new)"

text \<open>The three assignments of lines 148, 151 and 152, on a string.\<close>

definition clean_markup :: "string \<Rightarrow> string" where
  "clean_markup description0 =
     (let description1 = replace description0 ''<br><br>'' [newline, newline];
          description2 = replace (replace description1 ''<ul>'' '''') ''</ul>'' '''';
          description3 = replace (replace description2 ''<li>'' ''- '') ''</li>'' [newline]
      in description3)"

text \<open>
  The cell read at line 145 is a string or NaN. NaN is a float: it has no \<open>replace\<close>
  method, and line 148 raises AttributeError.
\<close>

definition clean_description :: "string option \<Rightarrow> error + string" where
  "clean_description cell =
     (case cell of
        None \<Rightarrow> Inl AttributeError
      | Some d \<Rightarrow> Inr (clean_markup d))"

text \<open>
  The specification's wording of the cleaner: its rules, applied in order, each to the result
  of the one before.
\<close>

definition markup_rules :: "(string \<times> string) list" where
  "markup_rules =
     [(''<br><br>'', [newline, newline]),
      (''<ul>'', ''''), (''</ul>'', ''''),
      (''<li>'', ''- ''),
      (''</li>'', [newline])]"

definition clean_by_rules :: "string \<Rightarrow> string" where
  "clean_by_rules raw = foldl (\<lambda>s (old, new). replace s old new) raw markup_rules"

text \<open>\<open>occurs old s\<close>: \<open>old\<close> is a substring of \<open>s\<close> (Python's \<open>old in s\<close>).\<close>

fun occurs :: "string \<Rightarrow> string \<Rightarrow> bool" where
  "occurs old [] = (old = [])"
| "occurs old (c # cs) = (prefix old (c # cs) \<or> occurs old cs)"

definition markup_free :: "string \<Rightarrow> bool" where
  "markup_free s = list_all (\<lambda>(old, new). \<not> occurs old s) markup_rules"

section \<open>Recommending related products (lines 177 to 191)\<close>

text \<open>\<open>df["description"].fillna("")\<close>\<close>

definition fillna :: "dataframe \<Rightarrow> string list" where
  "fillna df = map (\<lambda>p. case description p of None \<Rightarrow> '''' | Some d \<Rightarrow> d) df"

text \<open>
  \<open>df[df['id'] == product_id].index[0]\<close>: the position of the first row with that id;
  IndexError when the selection is empty.
\<close>

fun selected_index :: "string \<Rightarrow> dataframe \<Rightarrow> error + nat" where
  "selected_index pid [] = Inl IndexError"
| "selected_index pid (p # df) =
     (if product_id p = pid then Inr 0
      else case selected_index pid df of Inl e \<Rightarrow> Inl e | Inr i \<Rightarrow> Inr (Suc i))"

text \<open>
  A slice \<open>xs[start:stop]\<close>: a negative bound counts from the end, and every bound is
  clipped to the length.
\<close>

definition py_bound :: "int \<Rightarrow> nat \<Rightarrow> nat" where
  "py_bound i len = (if i < 0 then nat (max 0 (i + int len)) else min (nat i) len)"

definition slice :: "'a list \<Rightarrow> int \<Rightarrow> int \<Rightarrow> 'a list" where
  "slice xs start stop =
     (let lo = py_bound start (length xs); hi = py_bound stop (length xs)
      in take (hi - lo) (drop lo xs))"

text \<open>
  Line 187, \<open>row.argsort()[-(num_recommendations + 1):-1][::-1]\<close>. numpy's \<open>argsort\<close> is
  a parameter: its documentation promises the indices that sort the row in ascending order, and
  nothing on the order of equal scores.
\<close>

definition related_indices :: "(real list \<Rightarrow> nat list) \<Rightarrow> real list \<Rightarrow> int \<Rightarrow> nat list" where
  "related_indices argsort row num_recommendations =
     rev (slice (argsort row) (- (num_recommendations + 1)) (- 1))"

text \<open>Indexing the score matrix and \<open>df.iloc\<close> raise IndexError out of range.\<close>

definition matrix_row :: "real list list \<Rightarrow> nat \<Rightarrow> error + real list" where
  "matrix_row similarity_scores i =
     (if i < length similarity_scores then Inr (similarity_scores ! i) else Inl IndexError)"

definition iloc :: "dataframe \<Rightarrow> nat list \<Rightarrow> error + dataframe" where
  "iloc df indices =
     (if list_all (\<lambda>i. i < length df) indices then Inr (map (\<lambda>i. df ! i) indices)
      else Inl IndexError)"

text \<open>
  The body of the \<open>try\<close>. Lines 183 to 185 are scikit-learn's: \<open>tfidf_cosine\<close> stands for
  \<open>cosine_similarity(TfidfVectorizer(stop_words="english").fit_transform(docs))\<close>, the
  matrix of pairwise scores, or the exception raised (ValueError on an empty vocabulary).
\<close>

definition find_related_try ::
  "(string list \<Rightarrow> error + real list list) \<Rightarrow> (real list \<Rightarrow> nat list) \<Rightarrow>
   string \<Rightarrow> dataframe \<Rightarrow> int \<Rightarrow> error + dataframe" where
  "find_related_try tfidf_cosine argsort pid df num_recommendations =
     (case tfidf_cosine (fillna df) of
        Inl e \<Rightarrow> Inl e
      | Inr similarity_scores \<Rightarrow>
          (case selected_index pid df of
             Inl e \<Rightarrow> Inl e
           | Inr selected_idx \<Rightarrow>
               (case matrix_row similarity_scores selected_idx of
                  Inl e \<Rightarrow> Inl e
                | Inr row \<Rightarrow> iloc df (related_indices argsort row num_recommendations))))"

text \<open>
  The function with its \<open>except\<close>: every exception is shown and the empty frame returned.
  The result is what was shown and the frame returned.
\<close>

definition find_related_products ::
  "(string list \<Rightarrow> error + real list list) \<Rightarrow> (real list \<Rightarrow> nat list) \<Rightarrow>
   string \<Rightarrow> dataframe \<Rightarrow> int \<Rightarrow> message list \<times> dataframe" where
  "find_related_products tfidf_cosine argsort pid df num_recommendations =
     (case find_related_try tfidf_cosine argsort pid df num_recommendations of
        Inr related \<Rightarrow> ([], related)
      | Inl e \<Rightarrow> ([Error_finding e], []))"

text \<open>
  What \<open>argsort\<close> promises of its result on one row: a permutation of the positions, along
  which the scores ascend.
\<close>

definition argsort_result :: "real list \<Rightarrow> nat list \<Rightarrow> bool" where
  "argsort_result row order =
     (sort order = [0..<length row] \<and> sorted (map (\<lambda>i. row ! i) order))"

text \<open>
  An \<open>argsort\<close> that keeps equal scores in their order, as numpy's default sort does on a short
  row (it sorts up to sixteen elements by insertion).
\<close>

definition stable_argsort :: "real list \<Rightarrow> nat list" where
  "stable_argsort row = sort_key (\<lambda>i. row ! i) [0..<length row]"

text \<open>The score matrix has one row and one column for every row of the frame.\<close>

definition square_matrix :: "nat \<Rightarrow> real list list \<Rightarrow> bool" where
  "square_matrix n similarity_scores =
     (length similarity_scores = n \<and> list_all (\<lambda>row. length row = n) similarity_scores)"

text \<open>
  The scikit-learn step at one catalog: its score matrix when it is known, or the exception it
  raises.
\<close>

definition scores_known :: "real list list \<Rightarrow> string list \<Rightarrow> error + real list list" where
  "scores_known similarity_scores docs = Inr similarity_scores"

definition scoring_raises :: "error \<Rightarrow> string list \<Rightarrow> error + real list list" where
  "scoring_raises e docs = Inl e"

section \<open>Keyword search (lines 217 to 227)\<close>

text \<open>
  \<open>str.contains(search_query, case=False, na=False)\<close> compiles the query as a regular
  expression with \<open>re.IGNORECASE\<close> (\<open>regex=True\<close> is the default) and searches every
  description with it; NaN gives \<open>False\<close>. \<open>re_compile\<close> stands for the compilation: the
  search function of the pattern, or the error of a malformed one. With an empty query the block
  is skipped and no row is listed.
\<close>

definition keyword_search ::
  "(string \<Rightarrow> error + (string \<Rightarrow> bool)) \<Rightarrow> string \<Rightarrow> dataframe \<Rightarrow> error + dataframe" where
  "keyword_search re_compile search_query df =
     (if search_query = [] then Inr []
      else case re_compile search_query of
             Inl e \<Rightarrow> Inl e
           | Inr regex_search \<Rightarrow>
               Inr (filter (\<lambda>p. case description p of
                                  None \<Rightarrow> False
                                | Some d \<Rightarrow> regex_search d) df))"

definition lower_char :: "char \<Rightarrow> char" where
  "lower_char c =
     (case map_of (zip ''ABCDEFGHIJKLMNOPQRSTUVWXYZ'' ''abcdefghijklmnopqrstuvwxyz'') c of
        Some l \<Rightarrow> l
      | None \<Rightarrow> c)"



text \<open>The characters with a meaning of their own in a regular expression.\<close>

definition metacharacters :: string where
  "metacharacters = ''.^$*+?{}[]|()'' @ [CHR 0x5C]"


text \<open>
  The regular expressions made of ordinary characters and of \<open>.\<close>, which matches every
  character but the newline, searched as \<open>re\<close> does with \<open>re.IGNORECASE\<close>. A pattern with
  another metacharacter is outside this fragment and is not compiled here.
\<close>

fun match_here :: "string \<Rightarrow> string \<Rightarrow> bool" where
  "match_here [] s = True"
| "match_here (p # ps) [] = False"
| "match_here (p # ps) (c # cs) =
     ((if p = CHR ''.'' then c \<noteq> newline else lower_char p = lower_char c) \<and> match_here ps cs)"

fun search_from :: "string \<Rightarrow> string \<Rightarrow> bool" where
  "search_from pat [] = match_here pat []"
| "search_from pat (c # cs) = (match_here pat (c # cs) \<or> search_from pat cs)"

definition compile_fragment :: "string \<Rightarrow> error + (string \<Rightarrow> bool)" where
  "compile_fragment pat =
     (if list_all (\<lambda>c. c = CHR ''.'' \<or> c \<notin> set metacharacters) pat then Inr (search_from pat)
      else Inl RegexError)"

section \<open>The catalog of the specification's example\<close>


section \<open>Further catalogs\<close>

text \<open>
  Two products with the same description: their TF-IDF vectors are equal, and every cosine is 1.
\<close>

definition twin_catalog :: dataframe where
  "twin_catalog =
     [\<lparr>product_id = ''A'', description = Some ''red shoe''\<rparr>,
      \<lparr>product_id = ''B'', description = Some ''red shoe''\<rparr>]"

definition twin_scores :: "real list list" where
  "twin_scores = [[1, 1], [1, 1]]"

text \<open>
  B and C share a description that has no word in common with A's: the cosine is 1 within
  B and C, and 0 between A and each of them.
\<close>

definition tie_catalog :: dataframe where
  "tie_catalog =
     [\<lparr>product_id = ''A'', description = Some ''red shoe''\<rparr>,
      \<lparr>product_id = ''B'', description = Some ''blue hat''\<rparr>,
      \<lparr>product_id = ''C'', description = Some ''blue hat''\<rparr>]"

definition tie_scores :: "real list list" where
  "tie_scores = [[1, 0, 0], [0, 1, 1], [0, 1, 1]]"

text \<open>
  Descriptions made of English stop words only: the vocabulary is empty and
  \<open>fit_transform\<close> raises ValueError.
\<close>

definition stopword_catalog :: dataframe where
  "stopword_catalog =
     [\<lparr>product_id = ''A'', description = Some ''the''\<rparr>,
      \<lparr>product_id = ''B'', description = Some ''and''\<rparr>]"

text \<open>A catalog with a missing description.\<close>

definition missing_catalog :: dataframe where
  "missing_catalog =
     [\<lparr>product_id = ''A'', description = Some ''Red shoe''\<rparr>,
      \<lparr>product_id = ''B'', description = None\<rparr>]"

section \<open>Properties of the cleaner\<close>

lemma replace_absent: "\<not> occurs old s \<Longrightarrow> replace s old new = s"
proof (induction s)
  case Nil
  then show ?case by simp
next
  case (Cons c cs)
  then show ?case by auto
qed

lemma markup_free_unchanged: "markup_free s \<Longrightarrow> clean_markup s = s"
  by (simp add: markup_free_def markup_rules_def clean_markup_def replace_absent)

text \<open>
  C5. The cleaner of the script is the specification's: the substitutions
  \<open><br><br>\<close> to two newlines, \<open><ul>\<close> and \<open></ul>\<close> to nothing, \<open><li>\<close> to
  \<open>- \<close> and \<open></li>\<close> to a newline, in that order; and the description of product A
  is cleaned to \<open>- red\<close>, newline, \<open>- shoe\<close>, newline.
\<close>

theorem clean_markup_follows_rules:
  "clean_markup x = clean_by_rules x \<and>
   clean_markup ''<ul><li>red</li><li>shoe</li></ul>'' = ''- red'' @ [newline] @ ''- shoe'' @ [newline]"
  by (simp add: clean_markup_def clean_by_rules_def markup_rules_def)

text \<open>
  C4, as the claim states it, fails: cleaning \<open><u<ul>l>\<close> removes the inner \<open><ul>\<close> and
  leaves \<open><ul>\<close>, which a second cleaning removes.
\<close>

theorem clean_markup_not_idempotent:
  "clean_markup (clean_markup ''<u<ul>l>'') \<noteq> clean_markup ''<u<ul>l>''"
  by (simp add: clean_markup_def)

text \<open>
  C4, amended. Whenever the cleaned text holds none of the five markers, cleaning it again
  changes nothing; and a text that holds none of the five markers is left as it is by the
  cleaner, so that cleaning twice is cleaning once on every text without markup.
\<close>

theorem clean_markup_idempotent_without_markup:
  "(markup_free (clean_markup x) \<longrightarrow> clean_markup (clean_markup x) = clean_markup x) \<and>
   (markup_free x \<longrightarrow> clean_markup x = x)"
  by (simp add: markup_free_unchanged)

theorem clean_markup_idempotent_without_markup_witness:
  "markup_free (clean_markup ''<ul><li>red</li><li>shoe</li></ul>'') \<and>
   clean_markup (clean_markup ''<ul><li>red</li><li>shoe</li></ul>'') =
     clean_markup ''<ul><li>red</li><li>shoe</li></ul>'' \<and>
   markup_free ''blue hat'' \<and> clean_markup ''blue hat'' = ''blue hat''"
proof -
  have a: "markup_free (clean_markup ''<ul><li>red</li><li>shoe</li></ul>'')"
    by (simp add: clean_markup_def markup_free_def markup_rules_def)
  have b: "markup_free ''blue hat''"
    by (simp add: markup_free_def markup_rules_def)
  from a b
    clean_markup_idempotent_without_markup [of "''<ul><li>red</li><li>shoe</li></ul>''"]
    clean_markup_idempotent_without_markup [of "''blue hat''"]
  show ?thesis by blast
qed

text \<open>
  C8. On a cell holding the empty string the cleaner returns the empty string. On a missing
  cell (NaN) it does not: line 148 raises AttributeError.
\<close>

theorem clean_description_missing_raises:
  "clean_description (Some '''') = Inr '''' \<and> clean_description None = Inl AttributeError"
  by (simp add: clean_description_def clean_markup_def)

section \<open>Properties of the loader\<close>

text \<open>
  C9. When the source cannot be fetched or parsed, the loading error is shown and the session
  stops; when it is read with no row, only the empty-dataset error is shown and the session
  stops, so the two failures are distinct; and whenever the session goes on, it does so with
  the frame that was read, which is not empty, and with no error shown.
\<close>

theorem startup_outcomes:
  "startup (Inl e) = Stopped [Error_loading e, Dataset_empty] \<and>
   startup (Inr []) = Stopped [Dataset_empty] \<and>
   (df \<noteq> [] \<longrightarrow> startup (Inr df) = Running [] df) \<and>
   (startup read_csv = Running shown df' \<longrightarrow> df' \<noteq> [] \<and> read_csv = Inr df' \<and> shown = [])"
  by (auto simp: startup_def load_data_def split: sum.splits if_splits)

theorem startup_outcomes_witness:
  "startup (Inl ReadError) = Stopped [Error_loading ReadError, Dataset_empty] \<and>
   startup (Inr []) = Stopped [Dataset_empty] \<and>
   twin_catalog \<noteq> [] \<and>
   startup (Inr twin_catalog) = Running [] twin_catalog"
proof -
  have ne: "twin_catalog \<noteq> []" by (simp add: twin_catalog_def)
  from ne startup_outcomes [of ReadError twin_catalog "Inr twin_catalog" "[]" twin_catalog]
  show ?thesis by blast
qed

section \<open>Properties of the recommender\<close>

lemmas recommender_defs =
  find_related_products_def find_related_try_def scores_known_def scoring_raises_def
  matrix_row_def iloc_def related_indices_def slice_def py_bound_def stable_argsort_def
  argsort_result_def square_matrix_def fillna_def upt_rec

lemma selected_index_absent:
  "pid \<notin> product_id ` set df \<Longrightarrow> selected_index pid df = Inl IndexError"
  by (induction df) auto

lemma selected_index_found:
  "selected_index pid df = Inr i \<Longrightarrow> i < length df \<and> product_id (df ! i) = pid"
proof (induction df arbitrary: i)
  case Nil
  then show ?case by simp
next
  case (Cons p df)
  then show ?case by (auto split: if_splits sum.splits)
qed

lemma argsort_result_length: "argsort_result row order \<Longrightarrow> length order = length row"
  unfolding argsort_result_def by (metis length_sort length_upt diff_zero)

lemma argsort_result_set: "argsort_result row order \<Longrightarrow> set order = {0..<length row}"
  unfolding argsort_result_def by (metis set_sort set_upt)

lemma argsort_result_mset: "argsort_result row order \<Longrightarrow> mset order = mset [0..<length row]"
  unfolding argsort_result_def by (metis mset_sort)

lemma slice_top_length:
  "0 \<le> n \<Longrightarrow> length (slice xs (- (n + 1)) (- 1)) = nat (min n (int (length xs) - 1))"
  by (auto simp: slice_def py_bound_def Let_def)

lemma slice_set: "set (slice xs a b) \<subseteq> set xs"
  unfolding slice_def Let_def by (meson set_take_subset set_drop_subset subset_trans)


lemma slice_all_but_last:
  "int (length xs) - 1 \<le> n \<Longrightarrow> slice xs (- (n + 1)) (- 1) = butlast xs"
proof -
  assume n: "int (length xs) - 1 \<le> n"
  have lo: "py_bound (- (n + 1)) (length xs) = 0"
    using n by (auto simp: py_bound_def)
  have hi: "py_bound (- 1) (length xs) = length xs - 1"
    by (auto simp: py_bound_def)
  show ?thesis
    unfolding slice_def Let_def lo hi by (simp add: butlast_conv_take)
qed


lemma iloc_related:
  assumes "argsort_result row (argsort row)" "length row = length df"
  shows "iloc df (related_indices argsort row n) =
           Inr (map (\<lambda>i. df ! i) (related_indices argsort row n))"
proof -
  have "set (related_indices argsort row n) \<subseteq> {0..<length df}"
    using slice_set [of "argsort row"] argsort_result_set [OF assms(1)] assms(2)
    by (auto simp: related_indices_def)
  then show ?thesis
    by (auto simp: iloc_def list_all_iff)
qed

lemma find_related_try_success:
  assumes "tfidf_cosine (fillna df) = Inr similarity_scores"
    and "square_matrix (length df) similarity_scores"
    and "selected_index pid df = Inr selected_idx"
    and "argsort_result (similarity_scores ! selected_idx)
           (argsort (similarity_scores ! selected_idx))"
  shows "find_related_try tfidf_cosine argsort pid df n =
           Inr (map (\<lambda>i. df ! i)
                  (related_indices argsort (similarity_scores ! selected_idx) n))"
proof -
  have idx: "selected_idx < length df"
    using selected_index_found [OF assms(3)] by simp
  then have row: "matrix_row similarity_scores selected_idx =
                    Inr (similarity_scores ! selected_idx)"
    using assms(2) by (simp add: matrix_row_def square_matrix_def)
  have len: "length (similarity_scores ! selected_idx) = length df"
    using assms(2) idx by (simp add: square_matrix_def list_all_length)
  show ?thesis
    by (simp add: find_related_try_def assms(1) assms(3) row
          iloc_related [where argsort = argsort, OF assms(4) len])
qed

text \<open>A score strictly above all others of its row is the last in every ascending order.\<close>

lemma last_argsort_is_strict_maximum:
  assumes "argsort_result row order" "k < length row"
    and "\<forall>j<length row. j \<noteq> k \<longrightarrow> row ! j < row ! k"
  shows "order \<noteq> [] \<and> last order = k"
proof -
  have len: "length order = length row" by (rule argsort_result_length [OF assms(1)])
  with assms(2) have ne: "order \<noteq> []" by auto
  have "k \<in> set order"
    using argsort_result_set [OF assms(1)] assms(2) by simp
  then obtain i where i: "i < length order" "order ! i = k"
    by (auto simp: in_set_conv_nth)
  have srt: "sorted (map (\<lambda>i. row ! i) order)"
    using assms(1) by (simp add: argsort_result_def)
  have "last order = k"
  proof (rule ccontr)
    assume neq: "last order \<noteq> k"
    let ?l = "length order - 1"
    have l: "?l < length order" using ne by simp
    have lastl: "last order = order ! ?l" using ne by (simp add: last_conv_nth)
    have "order ! ?l \<in> set order" using l by simp
    then have "order ! ?l < length row"
      using argsort_result_set [OF assms(1)] by simp
    then have lt: "row ! (order ! ?l) < row ! k"
      using assms(3) neq lastl by simp
    have "i \<le> ?l" using i(1) by simp
    then have "map (\<lambda>i. row ! i) order ! i \<le> map (\<lambda>i. row ! i) order ! ?l"
      using srt l by (simp add: sorted_iff_nth_mono del: nth_map)
    then have "row ! k \<le> row ! (order ! ?l)"
      using i l by simp
    with lt show False by simp
  qed
  with ne show ?thesis by simp
qed

lemma mset_iloc_permutation:
  assumes "mset order = mset [0..<length df]"
  shows "mset (map (\<lambda>i. df ! i) order) = mset df"
proof -
  have "mset (map (\<lambda>i. df ! i) order) = image_mset (\<lambda>i. df ! i) (mset order)" by simp
  also have "\<dots> = mset (map (\<lambda>i. df ! i) [0..<length df])" using assms by simp
  also have "\<dots> = mset df" by (simp add: map_nth)
  finally show ?thesis .
qed

lemma mset_butlast_map:
  "xs \<noteq> [] \<Longrightarrow> mset (map f (butlast xs)) = mset (map f xs) - {#f (last xs)#}"
  by (induction xs) auto

lemma two_permutations:
  assumes "sort order = [0, Suc 0]"
  shows "order = [0, Suc 0] \<or> order = [Suc 0, 0]"
proof -
  have "length (sort order) = 2" using assms by simp
  then have len: "length order = 2" by simp
  have "set (sort order) = {0, Suc 0}" using assms by simp
  then have st: "set order = {0, Suc 0}" by simp
  from len obtain a b where ab: "order = [a, b]"
    by (auto simp: length_Suc_conv numeral_2_eq_2)
  with st show ?thesis by (auto simp: doubleton_eq_iff)
qed

text \<open>
  C1. With two products of the same description, the target's own score ties with the other's
  and the target is not the last of the ascending order: the slice drops the other product and
  returns the target itself.
\<close>

theorem target_returned_among_twins:
  "find_related_products (scores_known twin_scores) stable_argsort ''A'' twin_catalog 3 =
     ([], [\<lparr>product_id = ''A'', description = Some ''red shoe''\<rparr>])"
  by (simp add: recommender_defs twin_scores_def twin_catalog_def)

text \<open>
  Whatever order \<open>argsort\<close> gives to the two equal scores, one of the twins is recommended
  to itself.
\<close>

lemma twin_returned_for_every_argsort:
  assumes "argsort_result [1, 1] (argsort [1, 1])"
  shows "''A'' \<in> product_id ` set (snd (find_related_products (scores_known twin_scores)
                                          argsort ''A'' twin_catalog 3)) \<or>
         ''B'' \<in> product_id ` set (snd (find_related_products (scores_known twin_scores)
                                          argsort ''B'' twin_catalog 3))"
proof -
  have "sort (argsort [1, 1]) = [0, Suc 0]"
    using assms by (simp add: argsort_result_def upt_rec)
  then have "argsort [1, 1] = [0, Suc 0] \<or> argsort [1, 1] = [Suc 0, 0]"
    by (rule two_permutations)
  then show ?thesis
  proof
    assume "argsort [1, 1] = [0, Suc 0]"
    then show ?thesis
      by (simp add: find_related_products_def find_related_try_def scores_known_def
            matrix_row_def iloc_def related_indices_def slice_def py_bound_def
            twin_scores_def twin_catalog_def)
  next
    assume "argsort [1, 1] = [Suc 0, 0]"
    then show ?thesis
      by (simp add: find_related_products_def find_related_try_def scores_known_def
            matrix_row_def iloc_def related_indices_def slice_def py_bound_def
            twin_scores_def twin_catalog_def)
  qed
qed




text \<open>
  C3, as the claim states it, fails: for an id that is not in the catalog the function does not
  fail, it shows the IndexError of the lookup and returns the empty frame; and it ends the same
  way, with the vectorizer's ValueError, for an id that is in the catalog.
\<close>

theorem absent_id_returns_empty_frame:
  "find_related_products (scores_known twin_scores) stable_argsort ''Z'' twin_catalog 3 =
     ([Error_finding IndexError], []) \<and>
   ''Z'' \<notin> product_id ` set twin_catalog \<and>
   find_related_products (scoring_raises ValueError) stable_argsort ''A'' stopword_catalog 3 =
     ([Error_finding ValueError], []) \<and>
   ''A'' \<in> product_id ` set stopword_catalog"
  by (simp add: recommender_defs twin_scores_def twin_catalog_def stopword_catalog_def)

text \<open>
  C3, amended. For an id that is not in the catalog the function returns the empty frame and
  shows one error: the vectorizer's when the scoring raises, the IndexError of the lookup
  otherwise. It ends the same way whenever the scoring raises, whatever the id. When the scoring
  succeeds and the id is in the catalog, no error is shown.
\<close>

theorem absent_id_shown_as_error:
  "(pid \<notin> product_id ` set df \<longrightarrow>
      find_related_products tfidf_cosine argsort pid df n =
        ([Error_finding (case tfidf_cosine (fillna df) of
                           Inl e \<Rightarrow> e
                         | Inr similarity_scores \<Rightarrow> IndexError)], [])) \<and>
   (tfidf_cosine (fillna df) = Inl e \<longrightarrow>
      find_related_products tfidf_cosine argsort pid df n = ([Error_finding e], [])) \<and>
   (tfidf_cosine (fillna df) = Inr similarity_scores \<and>
    square_matrix (length df) similarity_scores \<and>
    selected_index pid df = Inr selected_idx \<and>
    argsort_result (similarity_scores ! selected_idx)
      (argsort (similarity_scores ! selected_idx)) \<longrightarrow>
      fst (find_related_products tfidf_cosine argsort pid df n) = [] \<and>
      pid \<in> product_id ` set df)"
proof (intro conjI impI)
  assume "pid \<notin> product_id ` set df"
  then have "selected_index pid df = Inl IndexError"
    by (rule selected_index_absent)
  then show "find_related_products tfidf_cosine argsort pid df n =
        ([Error_finding (case tfidf_cosine (fillna df) of
                           Inl e \<Rightarrow> e
                         | Inr similarity_scores \<Rightarrow> IndexError)], [])"
    by (simp add: find_related_products_def find_related_try_def split: sum.splits)
next
  assume "tfidf_cosine (fillna df) = Inl e"
  then show "find_related_products tfidf_cosine argsort pid df n = ([Error_finding e], [])"
    by (simp add: find_related_products_def find_related_try_def)
next
  assume a: "tfidf_cosine (fillna df) = Inr similarity_scores \<and>
    square_matrix (length df) similarity_scores \<and>
    selected_index pid df = Inr selected_idx \<and>
    argsort_result (similarity_scores ! selected_idx)
      (argsort (similarity_scores ! selected_idx))"
  then have "find_related_try tfidf_cosine argsort pid df n =
           Inr (map (\<lambda>i. df ! i)
                  (related_indices argsort (similarity_scores ! selected_idx) n))"
    by (intro find_related_try_success [where argsort = argsort and tfidf_cosine = tfidf_cosine])
       simp_all
  then show "fst (find_related_products tfidf_cosine argsort pid df n) = []"
    by (simp add: find_related_products_def)
  from a have "selected_index pid df = Inr selected_idx" by simp
  from selected_index_found [OF this] show "pid \<in> product_id ` set df"
    by (metis imageI nth_mem)
qed

theorem absent_id_shown_as_error_witness:
  "''Z'' \<notin> product_id ` set twin_catalog \<and>
   find_related_products (scores_known twin_scores) stable_argsort ''Z'' twin_catalog 3 =
     ([Error_finding IndexError], []) \<and>
   scoring_raises ValueError (fillna stopword_catalog) = Inl ValueError \<and>
   find_related_products (scoring_raises ValueError) stable_argsort ''A'' stopword_catalog 3 =
     ([Error_finding ValueError], []) \<and>
   scores_known tie_scores (fillna tie_catalog) = Inr tie_scores \<and>
   square_matrix (length tie_catalog) tie_scores \<and>
   selected_index ''A'' tie_catalog = Inr 0 \<and>
   argsort_result (tie_scores ! 0) (stable_argsort (tie_scores ! 0)) \<and>
   fst (find_related_products (scores_known tie_scores) stable_argsort ''A'' tie_catalog 3) = []"
proof -
  have a1: "''Z'' \<notin> product_id ` set twin_catalog"
    by (simp add: twin_catalog_def)
  have a2: "scores_known twin_scores (fillna twin_catalog) = Inr twin_scores"
    by (simp add: scores_known_def)
  have b1: "scoring_raises ValueError (fillna stopword_catalog) = Inl ValueError"
    by (simp add: scoring_raises_def)
  have h1: "scores_known tie_scores (fillna tie_catalog) = Inr tie_scores"
    by (simp add: scores_known_def)
  have h2: "square_matrix (length tie_catalog) tie_scores"
    by (simp add: square_matrix_def tie_scores_def tie_catalog_def)
  have h3: "selected_index ''A'' tie_catalog = Inr 0"
    by (simp add: tie_catalog_def)
  have h4: "argsort_result (tie_scores ! 0) (stable_argsort (tie_scores ! 0))"
    by (simp add: argsort_result_def stable_argsort_def tie_scores_def upt_rec)
  have c1: "find_related_products (scores_known twin_scores) stable_argsort ''Z'' twin_catalog 3 =
     ([Error_finding IndexError], [])"
    using a1 a2 absent_id_shown_as_error [where pid = "''Z''" and df = twin_catalog
        and tfidf_cosine = "scores_known twin_scores" and argsort = stable_argsort and n = 3]
    by simp
  have c2: "find_related_products (scoring_raises ValueError) stable_argsort ''A'' stopword_catalog 3 =
     ([Error_finding ValueError], [])"
    using b1 absent_id_shown_as_error [where pid = "''A''" and df = stopword_catalog
        and tfidf_cosine = "scoring_raises ValueError" and argsort = stable_argsort and n = 3
        and e = ValueError]
    by blast
  have c3: "fst (find_related_products (scores_known tie_scores) stable_argsort ''A'' tie_catalog 3) = []"
    using h1 h2 h3 h4 absent_id_shown_as_error [where pid = "''A''" and df = tie_catalog
        and tfidf_cosine = "scores_known tie_scores" and argsort = stable_argsort and n = 3
        and similarity_scores = tie_scores and selected_idx = 0]
    by blast
  from a1 b1 h1 h2 h3 h4 c1 c2 c3 show ?thesis by blast
qed

text \<open>
  C7, as the claim states it, fails. When the scoring raises, nothing is returned, where one
  product was to be. With a negative \<open>top_n\<close> the slice keeps all rows but one, more than
  \<open>top_n\<close>. And when \<open>top_n\<close> exceeds the number of other products while the target's score
  ties with another's, the target is returned in place of one of the others.
\<close>

theorem related_count_fails:
  "snd (find_related_products (scoring_raises ValueError) stable_argsort
          ''A'' stopword_catalog 1) = [] \<and>
   min 1 (int (length stopword_catalog) - 1) = 1 \<and>
   length (snd (find_related_products (scores_known tie_scores) stable_argsort
                  ''A'' tie_catalog (- 1))) = 2 \<and>
   map product_id (snd (find_related_products (scores_known twin_scores) stable_argsort
                          ''A'' twin_catalog 3)) = [''A'']"
  by (simp add: recommender_defs tie_scores_def tie_catalog_def twin_scores_def
        twin_catalog_def stopword_catalog_def)

text \<open>
  C7, amended. For a target id in the catalog and \<open>top_n\<close> not negative, when the scoring
  succeeds the function returns exactly \<open>min(top_n, s - 1)\<close> rows of a catalog of \<open>s\<close>
  rows, with or without ties, hence at most \<open>top_n\<close>. When moreover \<open>top_n\<close> is at least
  \<open>s - 1\<close> and the target's own score is strictly above every other score of its row, the
  rows returned are all the rows of the catalog but the target's.
\<close>

theorem related_products_count:
  assumes "tfidf_cosine (fillna df) = Inr similarity_scores"
    and "square_matrix (length df) similarity_scores"
    and "selected_index pid df = Inr selected_idx"
    and "argsort_result (similarity_scores ! selected_idx)
           (argsort (similarity_scores ! selected_idx))"
    and "0 \<le> n"
  shows "length (snd (find_related_products tfidf_cosine argsort pid df n)) =
           nat (min n (int (length df) - 1)) \<and>
         (int (length df) - 1 \<le> n \<and>
          (\<forall>j<length df. j \<noteq> selected_idx \<longrightarrow>
             similarity_scores ! selected_idx ! j <
             similarity_scores ! selected_idx ! selected_idx) \<longrightarrow>
            mset (snd (find_related_products tfidf_cosine argsort pid df n)) =
              mset df - {#df ! selected_idx#})"
proof -
  let ?row = "similarity_scores ! selected_idx"
  let ?order = "argsort ?row"
  have idx: "selected_idx < length df"
    using selected_index_found [OF assms(3)] by simp
  have len_row: "length ?row = length df"
    using assms(2) idx by (simp add: square_matrix_def list_all_length)
  have len_order: "length ?order = length df"
    using argsort_result_length [OF assms(4)] len_row by simp
  have out: "snd (find_related_products tfidf_cosine argsort pid df n) =
               map (\<lambda>i. df ! i) (related_indices argsort ?row n)"
    using find_related_try_success [where argsort = argsort and tfidf_cosine = tfidf_cosine,
        OF assms(1-4)]
    by (simp add: find_related_products_def)
  have count: "length (snd (find_related_products tfidf_cosine argsort pid df n)) =
                 nat (min n (int (length df) - 1))"
    using slice_top_length [OF assms(5), of ?order] len_order
    by (simp add: out related_indices_def)
  have others: "mset (snd (find_related_products tfidf_cosine argsort pid df n)) =
                  mset df - {#df ! selected_idx#}"
    if big: "int (length df) - 1 \<le> n"
      and top: "\<forall>j<length df. j \<noteq> selected_idx \<longrightarrow> ?row ! j < ?row ! selected_idx"
  proof -
    have "?order \<noteq> [] \<and> last ?order = selected_idx"
      using last_argsort_is_strict_maximum [OF assms(4)] idx top len_row by simp
    then have ne: "?order \<noteq> []" and lst: "last ?order = selected_idx" by simp_all
    have sl: "slice ?order (- (n + 1)) (- 1) = butlast ?order"
      using big len_order by (intro slice_all_but_last) simp
    have "mset ?order = mset [0..<length df]"
      using argsort_result_mset [OF assms(4)] len_row by simp
    then have all: "mset (map (\<lambda>i. df ! i) ?order) = mset df"
      by (rule mset_iloc_permutation)
    have "mset (map (\<lambda>i. df ! i) (related_indices argsort ?row n)) =
            mset (map (\<lambda>i. df ! i) (butlast ?order))"
      unfolding related_indices_def sl by simp
    also have "\<dots> = mset (map (\<lambda>i. df ! i) ?order) - {#df ! last ?order#}"
      using ne by (rule mset_butlast_map)
    finally show ?thesis
      using all by (simp add: out lst)
  qed
  from count others show ?thesis by blast
qed

theorem related_products_count_witness:
  "scores_known tie_scores (fillna tie_catalog) = Inr tie_scores \<and>
   square_matrix (length tie_catalog) tie_scores \<and>
   selected_index ''A'' tie_catalog = Inr 0 \<and>
   argsort_result (tie_scores ! 0) (stable_argsort (tie_scores ! 0)) \<and>
   (0::int) \<le> 3 \<and>
   int (length tie_catalog) - 1 \<le> 3 \<and>
   tie_scores ! 0 ! 1 < tie_scores ! 0 ! 0 \<and>
   tie_scores ! 0 ! 2 < tie_scores ! 0 ! 0 \<and>
   length (snd (find_related_products (scores_known tie_scores) stable_argsort
                  ''A'' tie_catalog 3)) = 2 \<and>
   mset (snd (find_related_products (scores_known tie_scores) stable_argsort
                ''A'' tie_catalog 3)) = mset tie_catalog - {#tie_catalog ! 0#}"
proof -
  have h1: "scores_known tie_scores (fillna tie_catalog) = Inr tie_scores"
    by (simp add: scores_known_def)
  have h2: "square_matrix (length tie_catalog) tie_scores"
    by (simp add: square_matrix_def tie_scores_def tie_catalog_def)
  have h3: "selected_index ''A'' tie_catalog = Inr 0"
    by (simp add: tie_catalog_def)
  have h4: "argsort_result (tie_scores ! 0) (stable_argsort (tie_scores ! 0))"
    by (simp add: argsort_result_def stable_argsort_def tie_scores_def upt_rec)
  have h5: "(0::int) \<le> 3" by simp
  have h6: "int (length tie_catalog) - 1 \<le> 3"
    by (simp add: tie_catalog_def)
  have h7: "\<forall>j<length tie_catalog. j \<noteq> 0 \<longrightarrow> tie_scores ! 0 ! j < tie_scores ! 0 ! 0"
    by (simp add: tie_catalog_def tie_scores_def less_Suc_eq all_conj_distrib)
  have n2: "nat (min 3 (int (length tie_catalog) - 1)) = 2"
    by (simp add: tie_catalog_def)
  note t = related_products_count [where tfidf_cosine = "scores_known tie_scores"
      and argsort = stable_argsort and n = 3, OF h1 h2 h3 h4 h5]
  from t n2 have c1: "length (snd (find_related_products (scores_known tie_scores) stable_argsort
                  ''A'' tie_catalog 3)) = 2"
    by simp
  from t h6 h7 have c2: "mset (snd (find_related_products (scores_known tie_scores) stable_argsort
                ''A'' tie_catalog 3)) = mset tie_catalog - {#tie_catalog ! 0#}"
    by blast
  have h8: "tie_scores ! 0 ! 1 < tie_scores ! 0 ! 0" "tie_scores ! 0 ! 2 < tie_scores ! 0 ! 0"
    by (simp_all add: tie_scores_def)
  from h1 h2 h3 h4 h5 h6 h8 c1 c2 show ?thesis by blast
qed

section \<open>Properties of the keyword search\<close>








text \<open>
  C10. Whatever the query and whatever the regular expression it compiles to, every product
  listed by the search is a row of the catalog whose description is present; the rows with a
  missing description can be removed from the catalog without changing the outcome of the
  search; and the search raises only what the compilation of the query raises. So a missing
  description is never a match, and is no error.
\<close>

theorem search_skips_missing:
  "(keyword_search re_compile query df = Inr found \<longrightarrow>
      (\<forall>p \<in> set found. description p \<noteq> None \<and> p \<in> set df)) \<and>
   keyword_search re_compile query (filter (\<lambda>p. description p \<noteq> None) df) =
     keyword_search re_compile query df \<and>
   (keyword_search re_compile query df = Inl e \<longrightarrow>
      query \<noteq> [] \<and> re_compile query = Inl e)"
proof (intro conjI impI)
  assume "keyword_search re_compile query df = Inr found"
  then show "\<forall>p \<in> set found. description p \<noteq> None \<and> p \<in> set df"
    by (auto simp: keyword_search_def split: if_splits sum.splits option.splits)
next
  have "filter (\<lambda>p. case description p of None \<Rightarrow> False | Some d \<Rightarrow> m d)
          (filter (\<lambda>p. description p \<noteq> None) df) =
        filter (\<lambda>p. case description p of None \<Rightarrow> False | Some d \<Rightarrow> m d) df" for m
    by (induction df) (auto split: option.splits)
  then show "keyword_search re_compile query (filter (\<lambda>p. description p \<noteq> None) df) =
     keyword_search re_compile query df"
    by (simp add: keyword_search_def split: sum.splits)
next
  assume "keyword_search re_compile query df = Inl e"
  then show "query \<noteq> []"
    by (auto simp: keyword_search_def split: if_splits)
next
  assume "keyword_search re_compile query df = Inl e"
  then show "re_compile query = Inl e"
    by (auto simp: keyword_search_def split: if_splits sum.splits)
qed

theorem search_skips_missing_witness:
  "keyword_search compile_fragment ''.'' missing_catalog =
     Inr [\<lparr>product_id = ''A'', description = Some ''Red shoe''\<rparr>] \<and>
   \<lparr>product_id = ''A'', description = Some ''Red shoe''\<rparr> \<in> set missing_catalog \<and>
   keyword_search compile_fragment ''('' missing_catalog = Inl RegexError \<and>
   compile_fragment ''('' = Inl RegexError"
proof -
  have h: "keyword_search compile_fragment ''.'' missing_catalog =
     Inr [\<lparr>product_id = ''A'', description = Some ''Red shoe''\<rparr>]"
    by (simp add: keyword_search_def compile_fragment_def metacharacters_def
          missing_catalog_def)
  have g: "keyword_search compile_fragment ''('' missing_catalog = Inl RegexError"
    by (simp add: keyword_search_def compile_fragment_def metacharacters_def)
  from h g
    search_skips_missing [of compile_fragment "''.''" missing_catalog
      "[\<lparr>product_id = ''A'', description = Some ''Red shoe''\<rparr>]"]
    search_skips_missing [of compile_fragment "''(''" missing_catalog _ RegexError]
  show ?thesis by simp
qed

end
